theory Spec2Isabelle
  imports Main "HOL-Library.Word"
begin

unbundle bit_operations_syntax

section \<open>Data model of \<^verbatim>\<open>gjs/jsapi-util-error.cpp\<close>\<close>

text \<open>
  The file bridges GLib errors and the exceptions of the JavaScript engine. Everything
  it does goes through a \<^verbatim>\<open>JSContext\<close>, whose pending-exception slot is the one piece of
  engine state the code reads and writes itself (\<^verbatim>\<open>JS_IsExceptionPending\<close>,
  \<^verbatim>\<open>JS_SetPendingException\<close>, \<^verbatim>\<open>JS::AutoSaveExceptionState\<close>). The rest of the engine
  is opaque here and is carried as a value of an arbitrary type \<open>'e\<close>.
\<close>

text \<open>
  \<^verbatim>\<open>JSProtoKey\<close> is an enumeration of the engine. The nine keys that \<^verbatim>\<open>gjs_throw_custom\<close>
  names are constructors of their own; every other value of the C enumeration is
  \<open>JSProto_Other n\<close>, with \<open>n\<close> its number.
\<close>

datatype JSProtoKey =
    JSProto_Error
  | JSProto_InternalError
  | JSProto_EvalError
  | JSProto_RangeError
  | JSProto_ReferenceError
  | JSProto_SyntaxError
  | JSProto_TypeError
  | JSProto_URIError
  | JSProto_StopIteration
  | JSProto_Other nat

text \<open>A \<^verbatim>\<open>JSObject*\<close> is an address; a \<^verbatim>\<open>JS::Value\<close> is undefined, null, an object or a string.\<close>

datatype js_object = JSObject nat

datatype js_value =
    UndefinedValue
  | NullValue
  | ObjectValue js_object
  | StringValue string

text \<open>\<^verbatim>\<open>JS::ObjectOrNullValue\<close> and \<^verbatim>\<open>JS::Value::isNull\<close>.\<close>

definition ObjectOrNullValue :: "js_object option \<Rightarrow> js_value" where
  "ObjectOrNullValue obj = (case obj of None \<Rightarrow> NullValue | Some p \<Rightarrow> ObjectValue p)"

definition isNull :: "js_value \<Rightarrow> bool" where
  "isNull v = (v = NullValue)"

record 'e JSContext =
  pending_exception :: "js_value option"
  engine :: 'e

text \<open>
  A \<^verbatim>\<open>GError\<close> (domain quark, code, message). The code never looks inside it: it hands
  it to \<^verbatim>\<open>gjs_error_from_gerror\<close> and frees it.
\<close>

datatype GError = GError (domain: "32 word") (code: "32 word") (error_message: string)

text \<open>
  The fields of \<^verbatim>\<open>JSErrorReport\<close> that \<^verbatim>\<open>gjs_warning_reporter\<close> reads. \<^verbatim>\<open>flags\<close>,
  \<^verbatim>\<open>lineno\<close> and \<^verbatim>\<open>errorNumber\<close> are \<^verbatim>\<open>unsigned\<close>.
\<close>

record JSErrorReport =
  flags :: "32 word"
  filename :: string
  lineno :: "32 word"
  errorNumber :: "32 word"
  message :: string

text \<open>
  The report flags of the engine's \<^verbatim>\<open>jsapi.h\<close>, which is not part of this repository:
  \<^verbatim>\<open>JSREPORT_ERROR\<close> is the pseudo-flag \<^verbatim>\<open>0x0\<close> of the default case, \<^verbatim>\<open>JSREPORT_WARNING\<close>
  is bit \<^verbatim>\<open>0x1\<close>.
\<close>

definition JSREPORT_ERROR :: "32 word" where
  "JSREPORT_ERROR = 0"

definition JSREPORT_WARNING :: "32 word" where
  "JSREPORT_WARNING = 1"

subsection \<open>Formatted text\<close>

text \<open>
  The arguments of a variadic, printf-style call: the code of this file passes C strings
  (\<^verbatim>\<open>%s\<close>) and ints (\<^verbatim>\<open>%d\<close>, \<^verbatim>\<open>%i\<close>); a caller of \<^verbatim>\<open>gjs_throw\<close> may pass an argument
  of any other type, which is carried by its bytes.
\<close>

datatype printf_arg = ArgString string | ArgInt "32 word" | ArgOther "8 word list"

text \<open>Decimal digits of a natural number, most significant first.\<close>

fun decimal :: "nat \<Rightarrow> string" where
  "decimal n =
     (if n < 10 then [''0123456789'' ! n]
      else decimal (n div 10) @ [''0123456789'' ! (n mod 10)])"

declare decimal.simps [simp del]

text \<open>What \<^verbatim>\<open>%d\<close> prints for a C int.\<close>

definition show_int :: "32 word \<Rightarrow> string" where
  "show_int i = (if sint i < 0 then CHR ''-'' # decimal (nat (- sint i)) else decimal (nat (sint i)))"

subsection \<open>Observable effects\<close>

text \<open>
  What the code does besides touching the JavaScript context is recorded, in order, in a
  trace: the buffers it allocates and frees, the requests and compartments it enters and
  leaves, and the messages it hands to the logging functions (with their format and
  arguments, as at the call site).
\<close>

datatype GjsDebugTopic = GJS_DEBUG_CONTEXT

datatype GLogLevelFlags =
    G_LOG_LEVEL_ERROR
  | G_LOG_LEVEL_CRITICAL
  | G_LOG_LEVEL_WARNING
  | G_LOG_LEVEL_MESSAGE

datatype event =
    Ev_g_strdup_vprintf string
      \<comment> \<open>\<^verbatim>\<open>g_strdup_vprintf\<close> returned a new buffer with this text\<close>
  | Ev_g_free string
      \<comment> \<open>\<^verbatim>\<open>g_free\<close> of the buffer with this text\<close>
  | Ev_g_error_free GError
  | Ev_JSAutoCompartment_enter js_object
  | Ev_JSAutoCompartment_leave
  | Ev_JS_BeginRequest
  | Ev_JS_EndRequest
  | Ev_gjs_debug GjsDebugTopic string "printf_arg list"
  | Ev_JS_ReportErrorUTF8 string "printf_arg list"
  | Ev_g_log GLogLevelFlags string "printf_arg list"
      \<comment> \<open>\<^verbatim>\<open>g_log (G_LOG_DOMAIN, level, format, ...)\<close>\<close>
  | Ev_g_return_if_fail_warning string
      \<comment> \<open>the critical message of a failed \<^verbatim>\<open>g_return_if_fail\<close> in the named function\<close>
  | Ev_g_assertion_message string
      \<comment> \<open>the message of a failed \<^verbatim>\<open>g_assert\<close> on the named expression\<close>

record 'e world =
  cx :: "'e JSContext"
  trace :: "event list"

definition emit :: "event \<Rightarrow> 'e world \<Rightarrow> 'e world" where
  "emit ev w = w\<lparr>trace := trace w @ [ev]\<rparr>"

subsection \<open>The functions this file calls and does not define\<close>

text \<open>
  The engine's and the binding layer's functions that can fail are parameters. One that
  takes the \<^verbatim>\<open>JSContext\<close> may change it in any way (in particular it may leave an
  exception pending, as the engine's functions do when they fail) and returns its result
  with the new context; \<open>None\<close> or \<open>False\<close> is the failure return (\<^verbatim>\<open>false\<close>,
  \<^verbatim>\<open>nullptr\<close>). \<^verbatim>\<open>g_filename_from_utf8\<close> and \<^verbatim>\<open>gjs_environment_variable_is_set\<close> do not
  take the context.

  \<open>printf_conversion\<close> is the C library's formatting of one conversion specification
  other than the plain \<^verbatim>\<open>%s\<close>, \<^verbatim>\<open>%d\<close>, \<^verbatim>\<open>%i\<close> and \<^verbatim>\<open>%%\<close> (\<^verbatim>\<open>%x\<close>, \<^verbatim>\<open>%u\<close>, \<^verbatim>\<open>%5d\<close>, \<^verbatim>\<open>%ld\<close>,
  \<^verbatim>\<open>%f\<close>, ...). It is given the format from the character after the \<^verbatim>\<open>%\<close> on and the
  arguments not yet consumed; \<open>Some (text, k, m)\<close> says that the specification is that
  character and the \<open>k\<close> after it, that it consumes \<open>m\<close> arguments and prints \<open>text\<close>;
  \<open>None\<close> says that C leaves the call undefined.
\<close>

datatype GjsConstString = GJS_STRING_NAME

record 'e runtime =
  gjs_get_import_global :: "'e JSContext \<Rightarrow> js_object"
  gjs_string_from_utf8 :: "string \<Rightarrow> 'e JSContext \<Rightarrow> js_value option \<times> 'e JSContext"
  JS_GetClassObject :: "JSProtoKey \<Rightarrow> 'e JSContext \<Rightarrow> js_object option \<times> 'e JSContext"
  JS_New :: "js_object \<Rightarrow> js_value list \<Rightarrow> 'e JSContext \<Rightarrow> js_object option \<times> 'e JSContext"
  gjs_object_set_property ::
    "js_object \<Rightarrow> GjsConstString \<Rightarrow> js_value \<Rightarrow> 'e JSContext \<Rightarrow> bool \<times> 'e JSContext"
  JS_ReportErrorUTF8 :: "string \<Rightarrow> printf_arg list \<Rightarrow> 'e JSContext \<Rightarrow> 'e JSContext"
  gjs_error_from_gerror :: "GError \<Rightarrow> bool \<Rightarrow> 'e JSContext \<Rightarrow> js_object option \<times> 'e JSContext"
  BuildStackString :: "js_object \<Rightarrow> nat \<Rightarrow> 'e JSContext \<Rightarrow> string option \<times> 'e JSContext"
  JS_EncodeStringToUTF8 :: "string \<Rightarrow> 'e JSContext \<Rightarrow> string option \<times> 'e JSContext"
  g_filename_from_utf8 :: "string \<Rightarrow> string option"
  gjs_environment_variable_is_set :: "string \<Rightarrow> bool"
  printf_conversion :: "string \<Rightarrow> printf_arg list \<Rightarrow> (string \<times> nat \<times> nat) option"

text \<open>Running one of them on the context of the world.\<close>

definition call :: "('e JSContext \<Rightarrow> 'a \<times> 'e JSContext) \<Rightarrow> 'e world \<Rightarrow> 'a \<times> 'e world" where
  "call f w = (case f (cx w) of (r, c) \<Rightarrow> (r, w\<lparr>cx := c\<rparr>))"

text \<open>
  \<^verbatim>\<open>JS_ReportErrorUTF8 (context, format, ...)\<close>: the report is recorded in the trace and
  the engine does with the context what it does.
\<close>

definition report_error :: "'e runtime \<Rightarrow> string \<Rightarrow> printf_arg list \<Rightarrow> 'e world \<Rightarrow> 'e world" where
  "report_error rt format args w =
     emit (Ev_JS_ReportErrorUTF8 format args) (w\<lparr>cx := JS_ReportErrorUTF8 rt format args (cx w)\<rparr>)"

subsection \<open>Formatting\<close>

text \<open>
  \<^verbatim>\<open>g_strdup_vprintf\<close> is GLib's; this is the C library's formatting. The conversions
  \<^verbatim>\<open>%s\<close>, \<^verbatim>\<open>%d\<close>, \<^verbatim>\<open>%i\<close> and \<^verbatim>\<open>%%\<close> are written out, every other conversion is
  \<open>printf_conversion\<close>'s, and every other character of the format is copied. The result
  is \<open>None\<close> only where C leaves the call undefined: a \<^verbatim>\<open>%\<close> that ends the format, a
  conversion without its argument or with an argument of the wrong type, or what
  \<open>printf_conversion\<close> leaves undefined. Arguments left over are ignored, as in C.
\<close>

fun g_strdup_vprintf :: "'e runtime \<Rightarrow> string \<Rightarrow> printf_arg list \<Rightarrow> string option" where
  "g_strdup_vprintf rt [] args = Some []"
| "g_strdup_vprintf rt [c] args = (if c = CHR ''%'' then None else Some [c])"
| "g_strdup_vprintf rt (c # d # fmt) args =
     (if c \<noteq> CHR ''%'' then map_option ((#) c) (g_strdup_vprintf rt (d # fmt) args)
      else if d = CHR ''%'' then map_option ((#) CHR ''%'') (g_strdup_vprintf rt fmt args)
      else if d = CHR ''s'' then
        (case args of
           ArgString s # rest \<Rightarrow> map_option ((@) s) (g_strdup_vprintf rt fmt rest)
         | _ \<Rightarrow> None)
      else if d = CHR ''d'' \<or> d = CHR ''i'' then
        (case args of
           ArgInt i # rest \<Rightarrow> map_option ((@) (show_int i)) (g_strdup_vprintf rt fmt rest)
         | _ \<Rightarrow> None)
      else
        (case printf_conversion rt (d # fmt) args of
           None \<Rightarrow> None
         | Some (text, k, m) \<Rightarrow>
             map_option ((@) text) (g_strdup_vprintf rt (drop k fmt) (drop m args))))"

subsection \<open>The pending-exception slot\<close>

definition JS_IsExceptionPending :: "'e JSContext \<Rightarrow> bool" where
  "JS_IsExceptionPending c = (pending_exception c \<noteq> None)"

definition JS_SetPendingException :: "js_value \<Rightarrow> 'e world \<Rightarrow> 'e world" where
  "JS_SetPendingException v w = w\<lparr>cx := (cx w)\<lparr>pending_exception := Some v\<rparr>\<rparr>"

text \<open>
  \<^verbatim>\<open>JS::AutoSaveExceptionState\<close>: the constructor takes a snapshot of the exception state
  of the context and clears the pending exception; \<^verbatim>\<open>restore\<close> replaces the exception
  state of the context with the snapshot (and the destructor then does nothing).
\<close>

definition AutoSaveExceptionState :: "'e world \<Rightarrow> js_value option \<times> 'e world" where
  "AutoSaveExceptionState w =
     (pending_exception (cx w), w\<lparr>cx := (cx w)\<lparr>pending_exception := None\<rparr>\<rparr>)"

definition restore :: "js_value option \<Rightarrow> 'e world \<Rightarrow> 'e world" where
  "restore saved_exc w = w\<lparr>cx := (cx w)\<lparr>pending_exception := saved_exc\<rparr>\<rparr>"

section \<open>The functions of the file\<close>

subsection \<open>\<^verbatim>\<open>gjs_throw_valist\<close>\<close>

text \<open>
  The result is \<open>None\<close> only where the formatting call itself is undefined. The
  compartment guard is a C++ object: it is left on every return. The label \<^verbatim>\<open>out\<close> is the
  tail of the definition, reached with \<open>result\<close> false from every \<^verbatim>\<open>goto\<close>. (The rooted
  \<^verbatim>\<open>global\<close> of the source is never used.)
\<close>

definition gjs_throw_valist ::
  "'e runtime \<Rightarrow> 'e world \<Rightarrow> JSProtoKey \<Rightarrow> string option \<Rightarrow> string \<Rightarrow> printf_arg list
     \<Rightarrow> 'e world option" where
  "gjs_throw_valist rt w error_kind error_name format args =
     (case g_strdup_vprintf rt format args of
        None \<Rightarrow> None
      | Some s \<Rightarrow>
          (let w0 = emit (Ev_g_strdup_vprintf s) w;
               w1 = emit (Ev_JSAutoCompartment_enter (gjs_get_import_global rt (cx w0))) w0;
               w2 = emit Ev_JS_BeginRequest w1
           in if JS_IsExceptionPending (cx w2) then
                Some (emit Ev_JSAutoCompartment_leave
                       (emit Ev_JS_EndRequest
                         (emit (Ev_g_free s)
                           (emit (Ev_gjs_debug GJS_DEBUG_CONTEXT
                                    (''Ignoring second exception: '%s'' @ [CHR 0x27])
                                    [ArgString s]) w2))))
              else
                (let (result, w3) =
                       (case call (gjs_string_from_utf8 rt s) w2 of
                          (None, wa) \<Rightarrow>
                            (False, report_error rt ''Failed to copy exception string'' [] wa)
                        | (Some arg0, wa) \<Rightarrow>
                            (case call (JS_GetClassObject rt error_kind) wa of
                               (None, wb) \<Rightarrow> (False, wb)
                             | (Some constructor, wb) \<Rightarrow>
                                 (case call (JS_New rt constructor [arg0]) wb of
                                    (None, wc) \<Rightarrow> (False, wc)
                                  | (Some new_exc, wc) \<Rightarrow>
                                      (case error_name of
                                         None \<Rightarrow>
                                           (True, JS_SetPendingException (ObjectValue new_exc) wc)
                                       | Some name \<Rightarrow>
                                           (case call (gjs_string_from_utf8 rt name) wc of
                                              (None, wd) \<Rightarrow> (False, wd)
                                            | (Some name_value, wd) \<Rightarrow>
                                                (case call (gjs_object_set_property rt new_exc
                                                             GJS_STRING_NAME name_value) wd of
                                                   (False, we) \<Rightarrow> (False, we)
                                                 | (True, we) \<Rightarrow>
                                                     (True, JS_SetPendingException
                                                              (ObjectValue new_exc) we)))))));
                     w4 = (if \<not> result
                           then report_error rt
                                  (''Failed to throw exception '%s'' @ [CHR 0x27]) [ArgString s] w3
                           else w3)
                 in Some (emit Ev_JSAutoCompartment_leave
                           (emit Ev_JS_EndRequest (emit (Ev_g_free s) w4))))))"

subsection \<open>\<^verbatim>\<open>gjs_throw\<close>, \<^verbatim>\<open>gjs_throw_custom\<close>, \<^verbatim>\<open>gjs_throw_literal\<close>\<close>

definition gjs_throw :: "'e runtime \<Rightarrow> 'e world \<Rightarrow> string \<Rightarrow> printf_arg list \<Rightarrow> 'e world option" where
  "gjs_throw rt w format args = gjs_throw_valist rt w JSProto_Error None format args"

text \<open>
  \<^verbatim>\<open>g_return_if_fail\<close> logs a critical message naming the function and returns, when its
  condition is false.
\<close>

definition gjs_throw_custom ::
  "'e runtime \<Rightarrow> 'e world \<Rightarrow> JSProtoKey \<Rightarrow> string option \<Rightarrow> string \<Rightarrow> printf_arg list
     \<Rightarrow> 'e world option" where
  "gjs_throw_custom rt w kind error_name format args =
     (if kind = JSProto_Error \<or> kind = JSProto_InternalError \<or>
         kind = JSProto_EvalError \<or> kind = JSProto_RangeError \<or>
         kind = JSProto_ReferenceError \<or> kind = JSProto_SyntaxError \<or>
         kind = JSProto_TypeError \<or> kind = JSProto_URIError \<or>
         kind = JSProto_StopIteration
      then gjs_throw_valist rt w kind error_name format args
      else Some (emit (Ev_g_return_if_fail_warning ''gjs_throw_custom'') w))"

definition gjs_throw_literal :: "'e runtime \<Rightarrow> 'e world \<Rightarrow> string \<Rightarrow> 'e world option" where
  "gjs_throw_literal rt w string = gjs_throw rt w ''%s'' [ArgString string]"

subsection \<open>\<^verbatim>\<open>gjs_throw_g_error\<close>\<close>

text \<open>The \<^verbatim>\<open>GError*\<close> may be \<^verbatim>\<open>NULL\<close>: \<open>None\<close>.\<close>

definition gjs_throw_g_error :: "'e runtime \<Rightarrow> 'e world \<Rightarrow> GError option \<Rightarrow> 'e world" where
  "gjs_throw_g_error rt w error =
     (case error of
        None \<Rightarrow> w
      | Some e \<Rightarrow>
          (let w1 = emit Ev_JS_BeginRequest w;
               (obj, w2) = call (gjs_error_from_gerror rt e True) w1;
               err = ObjectOrNullValue obj;
               w3 = emit (Ev_g_error_free e) w2;
               w4 = (if \<not> isNull err then JS_SetPendingException err w3 else w3)
           in emit Ev_JS_EndRequest w4))"

subsection \<open>\<^verbatim>\<open>gjs_format_stack_trace\<close>\<close>

text \<open>The result is the \<^verbatim>\<open>GjsAutoChar\<close>: \<open>None\<close> for \<^verbatim>\<open>nullptr\<close>.\<close>

definition gjs_format_stack_trace ::
  "'e runtime \<Rightarrow> 'e world \<Rightarrow> js_object \<Rightarrow> string option \<times> 'e world" where
  "gjs_format_stack_trace rt w saved_frame =
     (let (saved_exc, w1) = AutoSaveExceptionState w;
          (stack_utf8, w2) =
             (case call (BuildStackString rt saved_frame 2) w1 of
                (Some stack_trace, wa) \<Rightarrow> call (JS_EncodeStringToUTF8 rt stack_trace) wa
              | (None, wa) \<Rightarrow> (None, wa));
          w3 = restore saved_exc w2
      in case stack_utf8 of
           None \<Rightarrow> (None, w3)
         | Some utf8 \<Rightarrow> (g_filename_from_utf8 rt utf8, w3))"

subsection \<open>\<^verbatim>\<open>gjs_warning_reporter\<close>\<close>

text \<open>
  \<^verbatim>\<open>g_assert\<close> and \<^verbatim>\<open>g_error\<close> end the process: the result is then \<open>Inl\<close> of the world in
  which it ended, the fatal message last in its trace. \<open>Inr\<close> is a normal return. The
  report pointer may be \<^verbatim>\<open>NULL\<close>: \<open>None\<close>.
\<close>

definition gjs_warning_reporter ::
  "'e runtime \<Rightarrow> 'e world \<Rightarrow> JSErrorReport option \<Rightarrow> 'e world + 'e world" where
  "gjs_warning_reporter rt w report_ptr =
     (case report_ptr of
        None \<Rightarrow> Inl (emit (Ev_g_assertion_message ''report'') w)
      | Some report \<Rightarrow>
          if gjs_environment_variable_is_set rt ''GJS_ABORT_ON_OOM'' \<and>
             flags report = JSREPORT_ERROR \<and>
             errorNumber report = 137
          then Inl (emit (Ev_g_log G_LOG_LEVEL_ERROR ''GJS ran out of memory at %s: %i.''
                            [ArgString (filename report), ArgInt (lineno report)]) w)
          else
            (case (if flags report AND JSREPORT_WARNING \<noteq> 0
                   then (if errorNumber report = 162 then None
                         else Some (''WARNING'', G_LOG_LEVEL_MESSAGE))
                   else Some (''REPORTED'', G_LOG_LEVEL_WARNING)) of
               None \<Rightarrow> Inr w
             | Some (warning, level) \<Rightarrow>
                 Inr (emit (Ev_g_log level ''JS %s: [%s %d]: %s''
                              [ArgString warning, ArgString (filename report),
                               ArgInt (lineno report), ArgString (message report)]) w)))"

section \<open>Vocabulary of the properties\<close>

text \<open>
  The three public ways to raise, as one type, so that a property can speak of any
  sequence of raise calls: \<open>raise\<close> runs the function the call names.
\<close>

datatype raise_call =
    Throw string "printf_arg list"
  | Throw_custom JSProtoKey "string option" string "printf_arg list"
  | Throw_literal string

fun raise :: "'e runtime \<Rightarrow> 'e world \<Rightarrow> raise_call \<Rightarrow> 'e world option" where
  "raise rt w (Throw format args) = gjs_throw rt w format args"
| "raise rt w (Throw_custom kind error_name format args) =
     gjs_throw_custom rt w kind error_name format args"
| "raise rt w (Throw_literal string) = gjs_throw_literal rt w string"

text \<open>The format and the arguments that a call hands to \<^verbatim>\<open>gjs_throw_valist\<close>.\<close>

fun raise_format :: "raise_call \<Rightarrow> string \<times> printf_arg list" where
  "raise_format (Throw format args) = (format, args)"
| "raise_format (Throw_custom kind error_name format args) = (format, args)"
| "raise_format (Throw_literal string) = (''%s'', [ArgString string])"

text \<open>The closed set of error kinds of \<^verbatim>\<open>gjs_throw_custom\<close>.\<close>

definition error_kinds :: "JSProtoKey set" where
  "error_kinds =
     {JSProto_Error, JSProto_InternalError, JSProto_EvalError, JSProto_RangeError,
      JSProto_ReferenceError, JSProto_SyntaxError, JSProto_TypeError, JSProto_URIError,
      JSProto_StopIteration}"

fun raise_kind :: "raise_call \<Rightarrow> JSProtoKey" where
  "raise_kind (Throw format args) = JSProto_Error"
| "raise_kind (Throw_custom kind error_name format args) = kind"
| "raise_kind (Throw_literal string) = JSProto_Error"

text \<open>The exported name a call asks for: only \<^verbatim>\<open>gjs_throw_custom\<close> can give one.\<close>

fun raise_name :: "raise_call \<Rightarrow> string option" where
  "raise_name (Throw format args) = None"
| "raise_name (Throw_custom kind error_name format args) = error_name"
| "raise_name (Throw_literal string) = None"

text \<open>
  The events that acquire or release one of the two scoped resources of
  \<^verbatim>\<open>gjs_throw_valist\<close>: the message buffer and the request.
\<close>

fun scoped_event :: "event \<Rightarrow> bool" where
  "scoped_event (Ev_g_strdup_vprintf s) = True"
| "scoped_event (Ev_g_free s) = True"
| "scoped_event Ev_JS_BeginRequest = True"
| "scoped_event Ev_JS_EndRequest = True"
| "scoped_event ev = False"

text \<open>The events a call added to the trace.\<close>

definition new_events :: "'e world \<Rightarrow> 'e world \<Rightarrow> event list" where
  "new_events w w' = drop (length (trace w)) (trace w')"

subsection \<open>A runtime to run the functions on\<close>

text \<open>
  A small engine for the examples: its state is the list of the objects constructed so
  far, each with its constructor and arguments, the object at index \<open>i\<close> having the
  address \<open>100 + i\<close>; the constructor of a class is the object numbered by the class,
  and a property set on an object is listed under the object. Nothing fails in it,
  \<^verbatim>\<open>GJS_ABORT_ON_OOM\<close> is set, and of the other conversions it knows \<^verbatim>\<open>%u\<close>.
\<close>

fun class_object :: "JSProtoKey \<Rightarrow> js_object" where
  "class_object JSProto_Error = JSObject 11"
| "class_object JSProto_InternalError = JSObject 12"
| "class_object JSProto_EvalError = JSObject 13"
| "class_object JSProto_RangeError = JSObject 14"
| "class_object JSProto_ReferenceError = JSObject 15"
| "class_object JSProto_SyntaxError = JSObject 16"
| "class_object JSProto_TypeError = JSObject 17"
| "class_object JSProto_URIError = JSObject 18"
| "class_object JSProto_StopIteration = JSObject 20"
| "class_object (JSProto_Other n) = JSObject n"

type_synonym heap = "(js_object \<times> js_value list) list"

definition construct :: "js_object \<Rightarrow> js_value list \<Rightarrow> heap JSContext \<Rightarrow> js_object option \<times> heap JSContext" where
  "construct ctor args c =
     (Some (JSObject (100 + length (engine c))), c\<lparr>engine := engine c @ [(ctor, args)]\<rparr>)"

definition example_runtime :: "heap runtime" where
  "example_runtime =
     \<lparr>gjs_get_import_global = (\<lambda>c. JSObject 1),
      gjs_string_from_utf8 = (\<lambda>s c. (Some (StringValue s), c)),
      JS_GetClassObject = (\<lambda>k c. (Some (class_object k), c)),
      JS_New = construct,
      gjs_object_set_property = (\<lambda>obj name v c. (True, c\<lparr>engine := engine c @ [(obj, [v])]\<rparr>)),
      JS_ReportErrorUTF8 = (\<lambda>format args c. c),
      gjs_error_from_gerror =
        (\<lambda>e add_stack c. construct (JSObject 2) [StringValue (error_message e)] c),
      BuildStackString = (\<lambda>frame indent c. (Some ''main@a.js:1'', c)),
      JS_EncodeStringToUTF8 = (\<lambda>s c. (Some s, c)),
      g_filename_from_utf8 = Some,
      gjs_environment_variable_is_set = (\<lambda>name. name = ''GJS_ABORT_ON_OOM''),
      printf_conversion =
        (\<lambda>fmt args.
           case (fmt, args) of
             (c # rest, ArgInt i # others) \<Rightarrow>
               (if c = CHR ''u'' then Some (decimal (unat i), 0, 1) else None)
           | _ \<Rightarrow> None)\<rparr>"

text \<open>
  The same engine when things fail: \<^verbatim>\<open>JS::BuildStackString\<close> fails and leaves an
  exception of its own pending, no class has a constructor, and no \<^verbatim>\<open>GError\<close> can be
  converted.
\<close>

definition failing_runtime :: "heap runtime" where
  "failing_runtime =
     example_runtime
       \<lparr>BuildStackString :=
          (\<lambda>frame indent c. (None, c\<lparr>pending_exception := Some (StringValue ''out of memory'')\<rparr>)),
        JS_GetClassObject := (\<lambda>k c. (None, c)),
        gjs_error_from_gerror := (\<lambda>e add_stack c. (None, c))\<rparr>"

definition empty_world :: "heap world" where
  "empty_world = \<lparr>cx = \<lparr>pending_exception = None, engine = []\<rparr>, trace = []\<rparr>"

text \<open>A world in which an exception, the object at address 7, is already pending.\<close>

definition pending_world :: "heap world" where
  "pending_world = \<lparr>cx = \<lparr>pending_exception = Some (ObjectValue (JSObject 7)), engine = []\<rparr>, trace = []\<rparr>"

text \<open>Two raise calls, and the world between them when the first starts from \<open>empty_world\<close>.\<close>

definition first_call :: raise_call where
  "first_call = Throw_literal ''first''"

definition second_call :: raise_call where
  "second_call =
     Throw_custom JSProto_TypeError (Some ''MyError'') ''second: %s'' [ArgString ''x'']"

definition after_first_call :: "heap world" where
  "after_first_call =
     \<lparr>cx = \<lparr>pending_exception = Some (ObjectValue (JSObject 100)),
             engine = [(JSObject 11, [StringValue ''first''])]\<rparr>,
      trace = [Ev_g_strdup_vprintf ''first'', Ev_JSAutoCompartment_enter (JSObject 1),
               Ev_JS_BeginRequest, Ev_g_free ''first'', Ev_JS_EndRequest,
               Ev_JSAutoCompartment_leave]\<rparr>"

text \<open>
  A call of \<^verbatim>\<open>gjs_throw_custom\<close> with a key that is not an error kind, a raise call after
  it, and the worlds after each when the first starts from \<open>empty_world\<close>.
\<close>

definition rejected_call :: raise_call where
  "rejected_call = Throw_custom (JSProto_Other 0) None ''rejected'' []"

definition late_call :: raise_call where
  "late_call = Throw_literal ''late''"

definition after_rejected_call :: "heap world" where
  "after_rejected_call =
     \<lparr>cx = \<lparr>pending_exception = None, engine = []\<rparr>,
      trace = [Ev_g_return_if_fail_warning ''gjs_throw_custom'']\<rparr>"

definition after_late_call :: "heap world" where
  "after_late_call =
     \<lparr>cx = \<lparr>pending_exception = Some (ObjectValue (JSObject 100)),
             engine = [(JSObject 11, [StringValue ''late''])]\<rparr>,
      trace = [Ev_g_return_if_fail_warning ''gjs_throw_custom'',
               Ev_g_strdup_vprintf ''late'', Ev_JSAutoCompartment_enter (JSObject 1),
               Ev_JS_BeginRequest, Ev_g_free ''late'', Ev_JS_EndRequest,
               Ev_JSAutoCompartment_leave]\<rparr>"

text \<open>Three reports: out of memory as an error and as a warning, and the undefined property.\<close>

definition oom_report :: JSErrorReport where
  "oom_report =
     \<lparr>flags = JSREPORT_ERROR, filename = ''main.js'', lineno = 42,
      errorNumber = 137, message = ''out of memory''\<rparr>"

definition oom_warning_report :: JSErrorReport where
  "oom_warning_report = oom_report\<lparr>flags := JSREPORT_WARNING\<rparr>"

definition undefined_prop_report :: JSErrorReport where
  "undefined_prop_report =
     \<lparr>flags = 5, filename = ''main.js'', lineno = 7,
      errorNumber = 162, message = ''reference to undefined property x''\<rparr>"

section \<open>Properties\<close>

lemmas run_defs = gjs_throw_valist_def Let_def call_def emit_def report_error_def
  JS_SetPendingException_def JS_IsExceptionPending_def

lemmas example_defs = example_runtime_def failing_runtime_def empty_world_def pending_world_def
  construct_def

subsection \<open>Formatting\<close>

text \<open>
  The format \<^verbatim>\<open>%s\<close> prints its string argument as it is, in every runtime. A conversion
  that is not written out in \<open>g_strdup_vprintf\<close> is formatted by the runtime, here
  \<^verbatim>\<open>%u\<close> by the example engine, and the text after it is formatted as usual.
\<close>

lemma g_strdup_vprintf_literal:
  "g_strdup_vprintf rt ''%s'' [ArgString s] = Some s"
  by simp

lemma g_strdup_vprintf_other_conversion:
  "g_strdup_vprintf example_runtime ''line %u of %s'' [ArgInt 7, ArgString ''a.js''] =
     Some ''line 7 of a.js''"
  by (simp add: example_runtime_def decimal.simps)

subsection \<open>Two raise calls in a row\<close>

text \<open>
  With an exception pending, \<^verbatim>\<open>gjs_throw_valist\<close> takes its early return: it formats the
  message, logs it on the debug topic, frees it and leaves the context as it was.
\<close>

lemma gjs_throw_valist_pending:
  assumes "pending_exception (cx w) = Some exc" and "g_strdup_vprintf rt format args = Some s"
  shows "gjs_throw_valist rt w error_kind error_name format args =
     Some (w\<lparr>trace := trace w @
        [Ev_g_strdup_vprintf s,
         Ev_JSAutoCompartment_enter (gjs_get_import_global rt (cx w)),
         Ev_JS_BeginRequest,
         Ev_gjs_debug GJS_DEBUG_CONTEXT (''Ignoring second exception: '%s'' @ [CHR 0x27])
           [ArgString s],
         Ev_g_free s, Ev_JS_EndRequest, Ev_JSAutoCompartment_leave]\<rparr>)"
  using assms by (simp add: run_defs)

text \<open>
  With no exception pending and an engine that converts the message, finds the
  constructor, constructs the object and (when a name is given) sets the name,
  \<^verbatim>\<open>gjs_throw_valist\<close> installs the object it constructed.
\<close>

lemma gjs_throw_valist_installs:
  assumes "pending_exception (cx w) = None"
      and "g_strdup_vprintf rt format args = Some s"
      and "gjs_string_from_utf8 rt s (cx w) = (Some v, c1)"
      and "JS_GetClassObject rt error_kind c1 = (Some constructor, c2)"
      and "JS_New rt constructor [v] c2 = (Some new_exc, c3)"
      and "(case error_name of
              None \<Rightarrow> (True, c3)
            | Some n \<Rightarrow>
                (case gjs_string_from_utf8 rt n c3 of
                   (None, c) \<Rightarrow> (False, c)
                 | (Some name_value, c) \<Rightarrow>
                     gjs_object_set_property rt new_exc GJS_STRING_NAME name_value c)) =
           (True, c4)"
  shows "gjs_throw_valist rt w error_kind error_name format args =
     Some (w\<lparr>cx := c4\<lparr>pending_exception := Some (ObjectValue new_exc)\<rparr>,
             trace := trace w @
               [Ev_g_strdup_vprintf s,
                Ev_JSAutoCompartment_enter (gjs_get_import_global rt (cx w)),
                Ev_JS_BeginRequest,
                Ev_g_free s, Ev_JS_EndRequest, Ev_JSAutoCompartment_leave]\<rparr>)"
  using assms
  by (cases error_name) (auto simp: run_defs split: option.splits prod.splits bool.splits)

text \<open>Each public call with a kind of the closed set is a call of \<^verbatim>\<open>gjs_throw_valist\<close>.\<close>

lemma raise_valist:
  assumes "raise_kind rc \<in> error_kinds" and "raise_format rc = (format, args)"
  shows "raise rt w rc = gjs_throw_valist rt w (raise_kind rc) (raise_name rc) format args"
  using assms
  by (cases rc)
     (auto simp: gjs_throw_def gjs_throw_custom_def gjs_throw_literal_def error_kinds_def)

text \<open>
  The precedence rule for any raise call: made with an exception pending, the call
  returns with the context unchanged and adds to the trace only its own message buffer,
  allocated and freed, the compartment and the request, entered and left, and one
  \<^verbatim>\<open>gjs_debug\<close> message on the context topic carrying the suppressed message.
\<close>

lemma raise_while_pending:
  assumes "pending_exception (cx w) = Some exc"
      and "raise_kind rc \<in> error_kinds"
      and "raise_format rc = (format, args)"
      and "g_strdup_vprintf rt format args = Some s"
  shows "raise rt w rc =
     Some (w\<lparr>trace := trace w @
        [Ev_g_strdup_vprintf s,
         Ev_JSAutoCompartment_enter (gjs_get_import_global rt (cx w)),
         Ev_JS_BeginRequest,
         Ev_gjs_debug GJS_DEBUG_CONTEXT (''Ignoring second exception: '%s'' @ [CHR 0x27])
           [ArgString s],
         Ev_g_free s, Ev_JS_EndRequest, Ev_JSAutoCompartment_leave]\<rparr>)"
  using assms by (simp add: raise_valist gjs_throw_valist_pending)

text \<open>
  Claim C1, as the code has it. Take a context with no exception pending and two raise
  calls in a row, each through \<^verbatim>\<open>gjs_throw\<close>, \<^verbatim>\<open>gjs_throw_custom\<close> or
  \<^verbatim>\<open>gjs_throw_literal\<close> with a kind of the closed set and a format that is defined,
  nothing clearing the slot in between. When the engine builds the exception object of
  the first call (it converts the message, finds the constructor, constructs \<open>new_exc\<close>
  and sets the name if one is given), the first call installs \<open>new_exc\<close>, and the second
  call returns with the context unchanged, so \<open>new_exc\<close> is still the pending
  exception; all the second call adds to the trace is its own message buffer, allocated
  and freed, the compartment and the request, entered and left, and one \<^verbatim>\<open>gjs_debug\<close>
  message on the context topic carrying the suppressed message \<open>s2\<close>.
\<close>

theorem first_raise_wins:
  assumes empty: "pending_exception (cx w) = None"
      and kind1: "raise_kind call1 \<in> error_kinds"
      and fmt1: "raise_format call1 = (format1, args1)"
                "g_strdup_vprintf rt format1 args1 = Some s1"
      and str: "gjs_string_from_utf8 rt s1 (cx w) = (Some v, c1)"
      and cls: "JS_GetClassObject rt (raise_kind call1) c1 = (Some constructor, c2)"
      and new: "JS_New rt constructor [v] c2 = (Some new_exc, c3)"
      and name: "(case raise_name call1 of
                    None \<Rightarrow> (True, c3)
                  | Some n \<Rightarrow>
                      (case gjs_string_from_utf8 rt n c3 of
                         (None, c) \<Rightarrow> (False, c)
                       | (Some name_value, c) \<Rightarrow>
                           gjs_object_set_property rt new_exc GJS_STRING_NAME name_value c)) =
                 (True, c4)"
      and kind2: "raise_kind call2 \<in> error_kinds"
      and fmt2: "raise_format call2 = (format2, args2)"
                "g_strdup_vprintf rt format2 args2 = Some s2"
  shows "\<exists>w1 w2.
           raise rt w call1 = Some w1 \<and>
           cx w1 = c4\<lparr>pending_exception := Some (ObjectValue new_exc)\<rparr> \<and>
           raise rt w1 call2 = Some w2 \<and>
           cx w2 = cx w1 \<and>
           pending_exception (cx w2) = Some (ObjectValue new_exc) \<and>
           new_events w1 w2 =
             [Ev_g_strdup_vprintf s2,
              Ev_JSAutoCompartment_enter (gjs_get_import_global rt (cx w1)),
              Ev_JS_BeginRequest,
              Ev_gjs_debug GJS_DEBUG_CONTEXT (''Ignoring second exception: '%s'' @ [CHR 0x27])
                [ArgString s2],
              Ev_g_free s2, Ev_JS_EndRequest, Ev_JSAutoCompartment_leave]"
proof -
  define w1 where
    "w1 = w\<lparr>cx := c4\<lparr>pending_exception := Some (ObjectValue new_exc)\<rparr>,
            trace := trace w @
              [Ev_g_strdup_vprintf s1,
               Ev_JSAutoCompartment_enter (gjs_get_import_global rt (cx w)),
               Ev_JS_BeginRequest,
               Ev_g_free s1, Ev_JS_EndRequest, Ev_JSAutoCompartment_leave]\<rparr>"
  have first: "raise rt w call1 = Some w1"
    unfolding w1_def raise_valist [OF kind1 fmt1(1)]
    by (rule gjs_throw_valist_installs [OF empty fmt1(2) str cls new name])
  have installed: "pending_exception (cx w1) = Some (ObjectValue new_exc)"
    by (simp add: w1_def)
  have context_w1: "cx w1 = c4\<lparr>pending_exception := Some (ObjectValue new_exc)\<rparr>"
    by (simp add: w1_def)
  from raise_while_pending [OF installed kind2 fmt2]
  have second: "raise rt w1 call2 =
     Some (w1\<lparr>trace := trace w1 @
        [Ev_g_strdup_vprintf s2,
         Ev_JSAutoCompartment_enter (gjs_get_import_global rt (cx w1)),
         Ev_JS_BeginRequest,
         Ev_gjs_debug GJS_DEBUG_CONTEXT (''Ignoring second exception: '%s'' @ [CHR 0x27])
           [ArgString s2],
         Ev_g_free s2, Ev_JS_EndRequest, Ev_JSAutoCompartment_leave]\<rparr>)" .
  show ?thesis
    using first second installed context_w1 by (simp add: new_events_def)
qed

text \<open>
  On the example engine: \<^verbatim>\<open>gjs_throw_literal\<close> on an empty slot installs the object at
  address 100, constructed by the constructor of \<^verbatim>\<open>Error\<close> from the text of the first
  call; a \<^verbatim>\<open>gjs_throw_custom\<close> of a \<^verbatim>\<open>TypeError\<close> after it leaves that object pending
  and constructs nothing.
\<close>

theorem first_raise_wins_witness:
  "raise example_runtime empty_world first_call = Some after_first_call \<and>
   cx after_first_call =
     \<lparr>pending_exception = Some (ObjectValue (JSObject 100)),
      engine = [(JSObject 11, [StringValue ''first''])]\<rparr> \<and>
   (\<exists>w2. raise example_runtime after_first_call second_call = Some w2 \<and>
         cx w2 = cx after_first_call \<and>
         pending_exception (cx w2) = Some (ObjectValue (JSObject 100)) \<and>
         new_events after_first_call w2 =
           [Ev_g_strdup_vprintf ''second: x'',
            Ev_JSAutoCompartment_enter (JSObject 1),
            Ev_JS_BeginRequest,
            Ev_gjs_debug GJS_DEBUG_CONTEXT (''Ignoring second exception: '%s'' @ [CHR 0x27])
              [ArgString ''second: x''],
            Ev_g_free ''second: x'', Ev_JS_EndRequest, Ev_JSAutoCompartment_leave])"
proof -
  have empty: "pending_exception (cx empty_world) = None"
    by (simp add: empty_world_def)
  have kind1: "raise_kind first_call \<in> error_kinds"
    by (simp add: first_call_def error_kinds_def)
  have fmt1: "raise_format first_call = (''%s'', [ArgString ''first''])"
    by (simp add: first_call_def)
  have text1: "g_strdup_vprintf example_runtime ''%s'' [ArgString ''first''] = Some ''first''"
    by simp
  have str: "gjs_string_from_utf8 example_runtime ''first'' (cx empty_world) =
      (Some (StringValue ''first''), cx empty_world)"
    by (simp add: example_runtime_def)
  have cls: "JS_GetClassObject example_runtime (raise_kind first_call) (cx empty_world) =
      (Some (JSObject 11), cx empty_world)"
    by (simp add: example_runtime_def first_call_def)
  have new: "JS_New example_runtime (JSObject 11) [StringValue ''first''] (cx empty_world) =
      (Some (JSObject 100),
       \<lparr>pending_exception = None, engine = [(JSObject 11, [StringValue ''first''])]\<rparr>)"
    by (simp add: example_defs)
  have name: "(case raise_name first_call of
                 None \<Rightarrow>
                   (True, \<lparr>pending_exception = None,
                           engine = [(JSObject 11, [StringValue ''first''])]\<rparr>)
               | Some n \<Rightarrow>
                   (case gjs_string_from_utf8 example_runtime n
                           \<lparr>pending_exception = None,
                            engine = [(JSObject 11, [StringValue ''first''])]\<rparr> of
                      (None, c) \<Rightarrow> (False, c)
                    | (Some name_value, c) \<Rightarrow>
                        gjs_object_set_property example_runtime (JSObject 100)
                          GJS_STRING_NAME name_value c)) =
              (True, \<lparr>pending_exception = None,
                      engine = [(JSObject 11, [StringValue ''first''])]\<rparr>)"
    by (simp add: first_call_def)
  have kind2: "raise_kind second_call \<in> error_kinds"
    by (simp add: second_call_def error_kinds_def)
  have fmt2: "raise_format second_call = (''second: %s'', [ArgString ''x''])"
    by (simp add: second_call_def)
  have text2: "g_strdup_vprintf example_runtime ''second: %s'' [ArgString ''x''] =
      Some ''second: x''"
    by simp
  have first: "raise example_runtime empty_world first_call = Some after_first_call"
    by (simp add: first_call_def after_first_call_def gjs_throw_literal_def gjs_throw_def
        run_defs example_defs)
  show ?thesis
    using first
      first_raise_wins [OF empty kind1 fmt1 text1 str cls new name kind2 fmt2 text2]
    by (auto simp: after_first_call_def example_runtime_def)
qed

text \<open>
  As the claim is worded, for every sequence of two raise calls, it does not hold. A
  \<^verbatim>\<open>gjs_throw_custom\<close> with a key outside the closed set is rejected and installs
  nothing, so the raise call after it finds the slot empty and installs its own object:
  the second call changes the slot. And when an exception is pending before both calls,
  here the object at address 7, the first call installs nothing either: its object is
  not even constructed, and the exception that was pending stays.
\<close>

theorem second_raise_installs_counterexample:
  "raise example_runtime empty_world rejected_call = Some after_rejected_call \<and>
   pending_exception (cx after_rejected_call) = None \<and>
   raise example_runtime after_rejected_call late_call = Some after_late_call \<and>
   pending_exception (cx after_late_call) = Some (ObjectValue (JSObject 100)) \<and>
   cx after_late_call \<noteq> cx after_rejected_call \<and>
   map_option cx (raise example_runtime pending_world first_call) =
     Some \<lparr>pending_exception = Some (ObjectValue (JSObject 7)), engine = []\<rparr>"
  by (simp add: rejected_call_def late_call_def first_call_def after_rejected_call_def
      after_late_call_def gjs_throw_custom_def gjs_throw_literal_def gjs_throw_def
      run_defs example_defs)

subsection \<open>\<^verbatim>\<open>gjs_throw_g_error\<close>\<close>

text \<open>
  Claim C2. For a \<^verbatim>\<open>GError\<close> that is not \<^verbatim>\<open>NULL\<close> and that \<^verbatim>\<open>gjs_error_from_gerror\<close>
  converts into an object, \<^verbatim>\<open>gjs_throw_g_error\<close> makes that object the pending exception
  whatever the slot held before: there is no test of the slot on this path, and an
  exception that was pending is overwritten.
\<close>

theorem gjs_throw_g_error_overwrites:
  assumes "gjs_error_from_gerror rt e True (cx w) = (Some obj, c)"
  shows "cx (gjs_throw_g_error rt w (Some e)) = c\<lparr>pending_exception := Some (ObjectValue obj)\<rparr> \<and>
         pending_exception (cx (gjs_throw_g_error rt w (Some e))) = Some (ObjectValue obj)"
  using assms
  by (simp add: gjs_throw_g_error_def run_defs ObjectOrNullValue_def isNull_def)

text \<open>The object at address 7 is pending; afterwards the converted error at address 100 is.\<close>

theorem gjs_throw_g_error_overwrites_witness:
  "pending_exception (cx pending_world) = Some (ObjectValue (JSObject 7)) \<and>
   pending_exception (cx (gjs_throw_g_error example_runtime pending_world
                            (Some (GError 1 2 ''no such file'')))) =
     Some (ObjectValue (JSObject 100))"
proof -
  have h: "gjs_error_from_gerror example_runtime (GError 1 2 ''no such file'') True
             (cx pending_world) =
       (Some (JSObject 100),
        \<lparr>pending_exception = Some (ObjectValue (JSObject 7)),
         engine = [(JSObject 2, [StringValue ''no such file''])]\<rparr>)"
    by (simp add: example_defs)
  show ?thesis
    using gjs_throw_g_error_overwrites [OF h] by (simp add: pending_world_def)
qed

text \<open>
  When the conversion gives \<^verbatim>\<open>nullptr\<close> there is no exception to install: the test
  \<^verbatim>\<open>!err.isNull()\<close> skips \<^verbatim>\<open>JS_SetPendingException\<close> and the context is the one the
  converter left.
\<close>

lemma gjs_throw_g_error_not_converted:
  assumes "gjs_error_from_gerror rt e True (cx w) = (None, c)"
  shows "cx (gjs_throw_g_error rt w (Some e)) = c"
  using assms
  by (simp add: gjs_throw_g_error_def run_defs ObjectOrNullValue_def isNull_def)

text \<open>
  Claim C5. A \<^verbatim>\<open>GError\<close> that is not \<^verbatim>\<open>NULL\<close> is freed exactly once before
  \<^verbatim>\<open>gjs_throw_g_error\<close> returns, inside the request, whatever was pending and whether
  the conversion gave an object or not: the call adds to the trace the begin of the
  request, one \<^verbatim>\<open>g_error_free\<close> of the record and the end of the request. With \<^verbatim>\<open>NULL\<close>
  the function does nothing at all.
\<close>

theorem gjs_throw_g_error_frees_once:
  "gjs_throw_g_error rt w None = w \<and>
   trace (gjs_throw_g_error rt w (Some e)) =
     trace w @ [Ev_JS_BeginRequest, Ev_g_error_free e, Ev_JS_EndRequest] \<and>
   count_list (new_events w (gjs_throw_g_error rt w (Some e))) (Ev_g_error_free e) = 1"
  by (simp add: gjs_throw_g_error_def run_defs ObjectOrNullValue_def isNull_def new_events_def
      split: prod.splits option.splits)

text \<open>
  A conversion that fails with an exception pending, a conversion that succeeds with
  none pending, and the \<^verbatim>\<open>NULL\<close> record.
\<close>

theorem gjs_throw_g_error_frees_once_witness:
  "trace (gjs_throw_g_error failing_runtime pending_world (Some (GError 1 2 ''no such file''))) =
     [Ev_JS_BeginRequest, Ev_g_error_free (GError 1 2 ''no such file''), Ev_JS_EndRequest] \<and>
   trace (gjs_throw_g_error example_runtime empty_world (Some (GError 1 2 ''no such file''))) =
     [Ev_JS_BeginRequest, Ev_g_error_free (GError 1 2 ''no such file''), Ev_JS_EndRequest] \<and>
   gjs_throw_g_error example_runtime pending_world None = pending_world"
  using gjs_throw_g_error_frees_once [of failing_runtime pending_world "GError 1 2 ''no such file''"]
    gjs_throw_g_error_frees_once [of example_runtime empty_world "GError 1 2 ''no such file''"]
    gjs_throw_g_error_frees_once [of example_runtime pending_world]
  by (simp add: pending_world_def empty_world_def)

subsection \<open>\<^verbatim>\<open>gjs_format_stack_trace\<close>\<close>

text \<open>
  Claim C4. For every saved frame and whatever the engine does while it builds and
  encodes the stack string (it may fail, and it may leave an exception pending), the
  pending exception after \<^verbatim>\<open>gjs_format_stack_trace\<close> is the one before it, and the trace
  is untouched. A failure of any of the three steps shows only in the result, which is
  then \<open>None\<close>.
\<close>

theorem gjs_format_stack_trace_preserves_exception:
  "pending_exception (cx (snd (gjs_format_stack_trace rt w saved_frame))) =
     pending_exception (cx w) \<and>
   trace (snd (gjs_format_stack_trace rt w saved_frame)) = trace w \<and>
   fst (gjs_format_stack_trace rt w saved_frame) =
     (case BuildStackString rt saved_frame 2 ((cx w)\<lparr>pending_exception := None\<rparr>) of
        (None, c1) \<Rightarrow> None
      | (Some stack_trace, c1) \<Rightarrow>
          (case JS_EncodeStringToUTF8 rt stack_trace c1 of
             (None, c2) \<Rightarrow> None
           | (Some utf8, c2) \<Rightarrow> g_filename_from_utf8 rt utf8))"
  by (simp add: gjs_format_stack_trace_def AutoSaveExceptionState_def restore_def call_def
      split: prod.splits option.splits)

text \<open>
  With the object at address 7 pending: the stack is formatted and the world is the
  same; and when building the stack fails and leaves an exception of the engine
  pending, the result is \<open>None\<close> and the object at address 7 is pending again.
\<close>

theorem gjs_format_stack_trace_preserves_exception_witness:
  "gjs_format_stack_trace example_runtime pending_world (JSObject 3) =
     (Some ''main@a.js:1'', pending_world) \<and>
   BuildStackString failing_runtime (JSObject 3) 2
       ((cx pending_world)\<lparr>pending_exception := None\<rparr>) =
     (None, \<lparr>pending_exception = Some (StringValue ''out of memory''), engine = []\<rparr>) \<and>
   fst (gjs_format_stack_trace failing_runtime pending_world (JSObject 3)) = None \<and>
   pending_exception
       (cx (snd (gjs_format_stack_trace failing_runtime pending_world (JSObject 3)))) =
     Some (ObjectValue (JSObject 7))"
proof -
  have b: "BuildStackString failing_runtime (JSObject 3) 2
             ((cx pending_world)\<lparr>pending_exception := None\<rparr>) =
     (None, \<lparr>pending_exception = Some (StringValue ''out of memory''), engine = []\<rparr>)"
    by (simp add: example_defs)
  have s: "gjs_format_stack_trace example_runtime pending_world (JSObject 3) =
     (Some ''main@a.js:1'', pending_world)"
    by (simp add: gjs_format_stack_trace_def AutoSaveExceptionState_def restore_def call_def
        example_defs)
  show ?thesis
    using b s
      gjs_format_stack_trace_preserves_exception [of failing_runtime pending_world "JSObject 3"]
    by (simp add: pending_world_def)
qed

subsection \<open>\<^verbatim>\<open>gjs_warning_reporter\<close>\<close>

text \<open>
  Claim C3. For a report, \<^verbatim>\<open>gjs_warning_reporter\<close> ends the process exactly when
  \<^verbatim>\<open>GJS_ABORT_ON_OOM\<close> is set, the flags of the report are the hard-error value
  \<^verbatim>\<open>JSREPORT_ERROR\<close>, and its error number is 137, the number of the out-of-memory
  message. The process then ends in \<^verbatim>\<open>g_error\<close>, with nothing logged but the fatal
  message, whose arguments are the file name and the line number of the report and
  whose text cites both.
\<close>

theorem fatal_escalation_iff:
  "isl (gjs_warning_reporter rt w (Some report)) =
     (gjs_environment_variable_is_set rt ''GJS_ABORT_ON_OOM'' \<and>
      flags report = JSREPORT_ERROR \<and> errorNumber report = 137) \<and>
   (isl (gjs_warning_reporter rt w (Some report)) \<longrightarrow>
      gjs_warning_reporter rt w (Some report) =
        Inl (w\<lparr>trace := trace w @
               [Ev_g_log G_LOG_LEVEL_ERROR ''GJS ran out of memory at %s: %i.''
                  [ArgString (filename report), ArgInt (lineno report)]]\<rparr>) \<and>
      g_strdup_vprintf rt ''GJS ran out of memory at %s: %i.''
          [ArgString (filename report), ArgInt (lineno report)] =
        Some (''GJS ran out of memory at '' @ filename report @ '': '' @
              show_int (lineno report) @ ''.''))"
  by (simp add: gjs_warning_reporter_def emit_def)

theorem fatal_escalation_iff_witness:
  "gjs_environment_variable_is_set example_runtime ''GJS_ABORT_ON_OOM'' \<and>
   flags oom_report = JSREPORT_ERROR \<and> errorNumber oom_report = 137 \<and>
   gjs_warning_reporter example_runtime empty_world (Some oom_report) =
     Inl (empty_world\<lparr>trace :=
            [Ev_g_log G_LOG_LEVEL_ERROR ''GJS ran out of memory at %s: %i.''
               [ArgString ''main.js'', ArgInt 42]]\<rparr>) \<and>
   g_strdup_vprintf example_runtime ''GJS ran out of memory at %s: %i.''
       [ArgString ''main.js'', ArgInt 42] =
     Some ''GJS ran out of memory at main.js: 42.''"
proof -
  have h: "gjs_environment_variable_is_set example_runtime ''GJS_ABORT_ON_OOM'' \<and>
      flags oom_report = JSREPORT_ERROR \<and> errorNumber oom_report = 137"
    by (simp add: example_runtime_def oom_report_def)
  have d: "show_int 42 = ''42''"
    by (simp add: show_int_def decimal.simps)
  show ?thesis
    using h fatal_escalation_iff [of example_runtime empty_world oom_report]
    by (simp add: oom_report_def empty_world_def d)
qed

text \<open>
  Claim C6. A report with the warning flag set and error number 162, the number of the
  undefined-property message, is dropped: \<^verbatim>\<open>gjs_warning_reporter\<close> returns with the world
  as it was, nothing logged, whatever the environment.
\<close>

theorem undefined_prop_warning_dropped:
  assumes "flags report AND JSREPORT_WARNING \<noteq> 0" and "errorNumber report = 162"
  shows "gjs_warning_reporter rt w (Some report) = Inr w"
  using assms by (auto simp: gjs_warning_reporter_def JSREPORT_ERROR_def)

theorem undefined_prop_warning_dropped_witness:
  "flags undefined_prop_report AND JSREPORT_WARNING \<noteq> 0 \<and>
   errorNumber undefined_prop_report = 162 \<and>
   gjs_warning_reporter example_runtime empty_world (Some undefined_prop_report) =
     Inr empty_world"
proof -
  have h1: "flags undefined_prop_report AND JSREPORT_WARNING \<noteq> 0"
    by (simp add: undefined_prop_report_def JSREPORT_WARNING_def)
  have h2: "errorNumber undefined_prop_report = 162"
    by (simp add: undefined_prop_report_def)
  show ?thesis
    using h1 h2 undefined_prop_warning_dropped [OF h1 h2, of example_runtime empty_world]
    by simp
qed

text \<open>
  Claim C10. A report with the out-of-memory number 137 whose flags include the warning
  flag never ends the process, also with \<^verbatim>\<open>GJS_ABORT_ON_OOM\<close> set: its flags are not
  \<^verbatim>\<open>JSREPORT_ERROR\<close>. It is classified as any other warning and logged under the label
  \<^verbatim>\<open>WARNING\<close> at the message level, and the function returns.
\<close>

theorem oom_warning_not_fatal:
  assumes "errorNumber report = 137" and "flags report AND JSREPORT_WARNING \<noteq> 0"
  shows "gjs_warning_reporter rt w (Some report) =
           Inr (w\<lparr>trace := trace w @
                  [Ev_g_log G_LOG_LEVEL_MESSAGE ''JS %s: [%s %d]: %s''
                     [ArgString ''WARNING'', ArgString (filename report),
                      ArgInt (lineno report), ArgString (message report)]]\<rparr>)"
  using assms by (auto simp: gjs_warning_reporter_def JSREPORT_ERROR_def emit_def)

theorem oom_warning_not_fatal_witness:
  "gjs_environment_variable_is_set example_runtime ''GJS_ABORT_ON_OOM'' \<and>
   errorNumber oom_warning_report = 137 \<and>
   flags oom_warning_report AND JSREPORT_WARNING \<noteq> 0 \<and>
   gjs_warning_reporter example_runtime empty_world (Some oom_warning_report) =
     Inr (empty_world\<lparr>trace :=
            [Ev_g_log G_LOG_LEVEL_MESSAGE ''JS %s: [%s %d]: %s''
               [ArgString ''WARNING'', ArgString ''main.js'', ArgInt 42,
                ArgString ''out of memory'']]\<rparr>)"
proof -
  have h0: "gjs_environment_variable_is_set example_runtime ''GJS_ABORT_ON_OOM''"
    by (simp add: example_runtime_def)
  have h1: "errorNumber oom_warning_report = 137"
    by (simp add: oom_warning_report_def oom_report_def)
  have h2: "flags oom_warning_report AND JSREPORT_WARNING \<noteq> 0"
    by (simp add: oom_warning_report_def JSREPORT_WARNING_def)
  show ?thesis
    using h0 h1 h2 oom_warning_not_fatal [OF h1 h2, of example_runtime empty_world]
    by (simp add: oom_warning_report_def oom_report_def empty_world_def)
qed

subsection \<open>The public entry points\<close>

text \<open>
  Claim C7. \<^verbatim>\<open>gjs_throw_literal\<close> does not read its argument as a format: for every
  string, percent signs included, the message it raises is the string itself. With no
  exception pending and an engine that builds the exception, the string converted for
  the engine is exactly the given one, the constructor is that of \<^verbatim>\<open>Error\<close>, and the
  object constructed from the two is installed as the pending exception; the message
  buffer allocated and freed holds the given string.
\<close>

theorem gjs_throw_literal_verbatim:
  assumes "pending_exception (cx w) = None"
      and "gjs_string_from_utf8 rt string (cx w) = (Some v, c1)"
      and "JS_GetClassObject rt JSProto_Error c1 = (Some constructor, c2)"
      and "JS_New rt constructor [v] c2 = (Some new_exc, c3)"
  shows "gjs_throw_literal rt w string =
           Some (w\<lparr>cx := c3\<lparr>pending_exception := Some (ObjectValue new_exc)\<rparr>,
                   trace := trace w @
                     [Ev_g_strdup_vprintf string,
                      Ev_JSAutoCompartment_enter (gjs_get_import_global rt (cx w)),
                      Ev_JS_BeginRequest,
                      Ev_g_free string, Ev_JS_EndRequest, Ev_JSAutoCompartment_leave]\<rparr>)"
  using assms by (simp add: gjs_throw_literal_def gjs_throw_def run_defs)

text \<open>
  The exception installed for \<^verbatim>\<open>100% done\<close> is the object at address 100, constructed by
  the constructor of \<^verbatim>\<open>Error\<close> (object 11) from the string \<^verbatim>\<open>100% done\<close>. (The same text
  given to \<^verbatim>\<open>gjs_throw\<close> as a format is not a defined call.)
\<close>

theorem gjs_throw_literal_verbatim_witness:
  "gjs_throw_literal example_runtime empty_world ''100% done'' =
     Some \<lparr>cx = \<lparr>pending_exception = Some (ObjectValue (JSObject 100)),
                 engine = [(JSObject 11, [StringValue ''100% done''])]\<rparr>,
           trace = [Ev_g_strdup_vprintf ''100% done'', Ev_JSAutoCompartment_enter (JSObject 1),
                    Ev_JS_BeginRequest, Ev_g_free ''100% done'', Ev_JS_EndRequest,
                    Ev_JSAutoCompartment_leave]\<rparr>"
proof -
  have h1: "pending_exception (cx empty_world) = None"
    by (simp add: empty_world_def)
  have h2: "gjs_string_from_utf8 example_runtime ''100% done'' (cx empty_world) =
      (Some (StringValue ''100% done''), cx empty_world)"
    by (simp add: example_runtime_def)
  have h3: "JS_GetClassObject example_runtime JSProto_Error (cx empty_world) =
      (Some (JSObject 11), cx empty_world)"
    by (simp add: example_runtime_def)
  have h4: "JS_New example_runtime (JSObject 11) [StringValue ''100% done''] (cx empty_world) =
      (Some (JSObject 100),
       \<lparr>pending_exception = None, engine = [(JSObject 11, [StringValue ''100% done''])]\<rparr>)"
    by (simp add: example_defs)
  show ?thesis
    using gjs_throw_literal_verbatim [OF h1 h2 h3 h4]
    by (simp add: example_runtime_def empty_world_def)
qed

text \<open>
  Claim C8. Once \<^verbatim>\<open>gjs_throw_valist\<close> has formatted its message \<open>s\<close>, it returns on every
  path (an exception already pending, any failure while the exception is built, or
  success), and on every path the events on the message buffer and on the request that
  it adds to the trace are the same four, in this order: the buffer is allocated, the
  request begun, the buffer freed once, the request ended once.
\<close>

theorem gjs_throw_valist_releases_once:
  assumes "g_strdup_vprintf rt format args = Some s"
  shows "\<exists>w'. gjs_throw_valist rt w error_kind error_name format args = Some w' \<and>
           take (length (trace w)) (trace w') = trace w \<and>
           filter scoped_event (new_events w w') =
             [Ev_g_strdup_vprintf s, Ev_JS_BeginRequest, Ev_g_free s, Ev_JS_EndRequest]"
  using assms
  by (simp add: run_defs new_events_def split: prod.splits option.splits bool.splits)

text \<open>
  A failure path: the engine has no constructor for the class, the failure is reported
  with the message, and the buffer and the request are released after the report.
\<close>

theorem gjs_throw_valist_releases_once_witness:
  "g_strdup_vprintf failing_runtime ''bad arg %d'' [ArgInt 3] = Some ''bad arg 3'' \<and>
   gjs_throw_valist failing_runtime empty_world JSProto_TypeError (Some ''MyError'')
       ''bad arg %d'' [ArgInt 3] =
     Some (empty_world\<lparr>trace :=
        [Ev_g_strdup_vprintf ''bad arg 3'', Ev_JSAutoCompartment_enter (JSObject 1),
         Ev_JS_BeginRequest,
         Ev_JS_ReportErrorUTF8 (''Failed to throw exception '%s'' @ [CHR 0x27])
           [ArgString ''bad arg 3''],
         Ev_g_free ''bad arg 3'', Ev_JS_EndRequest, Ev_JSAutoCompartment_leave]\<rparr>) \<and>
   (\<exists>w'. gjs_throw_valist failing_runtime empty_world JSProto_TypeError (Some ''MyError'')
           ''bad arg %d'' [ArgInt 3] = Some w' \<and>
         take (length (trace empty_world)) (trace w') = trace empty_world \<and>
         filter scoped_event (new_events empty_world w') =
           [Ev_g_strdup_vprintf ''bad arg 3'', Ev_JS_BeginRequest, Ev_g_free ''bad arg 3'',
            Ev_JS_EndRequest])"
proof -
  have d: "show_int 3 = ''3''"
    by (simp add: show_int_def decimal.simps)
  have h: "g_strdup_vprintf failing_runtime ''bad arg %d'' [ArgInt 3] = Some ''bad arg 3''"
    by (simp add: d)
  have r: "gjs_throw_valist failing_runtime empty_world JSProto_TypeError (Some ''MyError'')
       ''bad arg %d'' [ArgInt 3] =
     Some (empty_world\<lparr>trace :=
        [Ev_g_strdup_vprintf ''bad arg 3'', Ev_JSAutoCompartment_enter (JSObject 1),
         Ev_JS_BeginRequest,
         Ev_JS_ReportErrorUTF8 (''Failed to throw exception '%s'' @ [CHR 0x27])
           [ArgString ''bad arg 3''],
         Ev_g_free ''bad arg 3'', Ev_JS_EndRequest, Ev_JSAutoCompartment_leave]\<rparr>)"
    by (simp add: run_defs example_defs d)
  show ?thesis
    using h r
      gjs_throw_valist_releases_once [OF h, of empty_world JSProto_TypeError
        "Some ''MyError''"]
    by simp
qed

text \<open>
  Claim C9. For a kind outside the closed set of error kinds, \<^verbatim>\<open>gjs_throw_custom\<close> stops
  at its \<^verbatim>\<open>g_return_if_fail\<close>: it logs the critical message of a failed precondition and
  returns. The context is untouched, nothing is formatted or allocated, and no function
  of the engine runs: the result is the same for every runtime and for every format,
  defined or not.
\<close>

theorem gjs_throw_custom_rejects_kind:
  assumes "kind \<notin> error_kinds"
  shows "gjs_throw_custom rt w kind error_name format args =
           Some (w\<lparr>trace := trace w @ [Ev_g_return_if_fail_warning ''gjs_throw_custom'']\<rparr>)"
  using assms by (simp add: gjs_throw_custom_def error_kinds_def emit_def)

theorem gjs_throw_custom_rejects_kind_witness:
  "JSProto_Other 0 \<notin> error_kinds \<and>
   gjs_throw_custom example_runtime empty_world (JSProto_Other 0) None ''%d'' [] =
     Some (empty_world\<lparr>trace := [Ev_g_return_if_fail_warning ''gjs_throw_custom'']\<rparr>)"
proof -
  have h: "JSProto_Other 0 \<notin> error_kinds"
    by (simp add: error_kinds_def)
  show ?thesis
    using h gjs_throw_custom_rejects_kind [OF h, of example_runtime empty_world None "''%d''" "[]"]
    by (simp add: empty_world_def)
qed

end
